theory Spec2Isabelle
  imports Main
begin

section \<open>JavaScript values and strings\<close>

text \<open>
  The constructor of \<open>ClientApp\<close> inspects its configuration dynamically
  (\<open>hasOwnProperty\<close>, \<open>typeof\<close>, truthiness), so an option can hold any
  JavaScript value, not only the string its TypeScript type announces.
\<close>

datatype jsval = JUndefined | JNull | JBool bool | JNumber int | JString string | JObject

text \<open>
  A string is a list of code units; \<open>char\<close> covers the code units below 256.
  In that range \<open>String.prototype.trim\<close> strips TAB, LF, VT, FF, CR, SPACE and
  NO-BREAK SPACE from both ends.
\<close>

definition isWhiteSpace :: "char \<Rightarrow> bool" where
  "isWhiteSpace c = (c \<in> set [CHR 0x09, CHR 0x0A, CHR 0x0B, CHR 0x0C, CHR 0x0D, CHR 0x20, CHR 0xA0])"

definition trim :: "string \<Rightarrow> string" where
  "trim s = rev (dropWhile isWhiteSpace (rev (dropWhile isWhiteSpace s)))"

section \<open>The environment catalog (\<open>./utils/env\<close>)\<close>

text \<open>
  The module \<open>./utils/env\<close> is imported by the source but is not part of the source
  tree. The constructor uses three things of it: the type \<open>PcEnv\<close> (of which it reads
  \<open>pcEnvTld\<close> and \<open>pcAppOrigin\<close>), the function \<open>lookupPcEnv\<close> (which returns a
  \<open>PcEnv\<close> or null) and the constant \<open>DEFAULT_PC_ENV\<close>. They are parameters of the
  model.
\<close>

record PcEnv =
  pcEnvTld :: string
  pcAppOrigin :: string

record EnvUtils =
  lookupPcEnv :: "string \<Rightarrow> bool \<Rightarrow> PcEnv option"
  DEFAULT_PC_ENV :: PcEnv

section \<open>The page's query string\<close>

text \<open>
  \<open>queryString.parse(ClientApp._getQueryString() || '')\<close> is a call into the external
  package \<open>query-string\<close>. Its result object is determined by the decoded key/value
  pairs of \<open>window.location.search\<close>, in order: a key without \<open>=\<close> has the value
  null, a key that occurs once has its value, and a key that occurs again turns its entry
  into the array of all its values. A null or empty search string has no pairs. The model
  takes the list of decoded pairs as the ambient input; \<open>parsedQueryString[paramName]\<close>
  is then:
\<close>

type_synonym query = "(string \<times> string option) list"

datatype qsval = QUndefined | QNull | QString string | QArray "string option list"

fun collect :: "string option list \<Rightarrow> qsval" where
  "collect [] = QUndefined"
| "collect [None] = QNull"
| "collect [Some v] = QString v"
| "collect vs = QArray vs"

definition occurrences :: "query \<Rightarrow> string \<Rightarrow> string option list" where
  "occurrences q name = map snd (filter (\<lambda>kv. fst kv = name) q)"

definition parsed :: "query \<Rightarrow> string \<Rightarrow> qsval" where
  "parsed q name = collect (occurrences q name)"

section \<open>The client application\<close>

text \<open>
  The configuration object: each of the three options is absent (\<open>hasOwnProperty\<close>
  is false) or present with some value. The constructor reads no other property of it.
\<close>

record config =
  pcEnvironmentQueryParam :: "jsval option"
  pcEnvironment :: "jsval option"
  pcOrigin :: "jsval option"

text \<open>
  The constructor's argument. The tests of lines 152, 169 and 177 call
  \<open>cfg.hasOwnProperty\<close>, a method the configuration inherits from
  \<open>Object.prototype\<close>, so the argument is one of:
  \<^item> \<open>Falsy\<close>: a falsy value such as null, for which line 151 skips the block (an
    omitted argument is the default \<open>{}\<close>, the ordinary object with no option);
  \<^item> \<open>Object c\<close>: an ordinary object, such as an object literal, with the options \<open>c\<close>;
  \<^item> \<open>NullProto c\<close>: an object without prototype (\<open>Object.create(null)\<close>) with the
    options \<open>c\<close>; there \<open>cfg.hasOwnProperty\<close> is undefined and calling it throws a
    \<open>TypeError\<close>.
\<close>

datatype argument = Falsy | Object config | NullProto config

text \<open>
  The object literal \<open>{ targetPcOrigin: ... }\<close> handed to every API module; the
  expression that fills it has the type \<open>string | null\<close>.
\<close>

record apiCfg =
  targetPcOrigin :: "string option"

text \<open>
  The seven API classes (\<open>./modules/*\<close>) are not part of the source tree either. An
  instance is modelled as the class together with the configuration its constructor
  received; the constructors are taken not to throw.
\<close>

datatype api_class =
  AlertingApi | LifecycleApi | CoreUiApi | UsersApi | ConversationsApi
  | MyConversationsApi | ExternalContactsApi

datatype api = New (class_of: api_class) (config_of: apiCfg)

text \<open>The instance: the two private fields and the seven public ones.\<close>

record ClientApp =
  priv_pcEnv :: "PcEnv option"
  priv_customPcOrigin :: "string option"
  alerting :: api
  lifecycle :: api
  coreUi :: api
  users :: api
  conversations :: api
  myConversations :: api
  externalContacts :: api

text \<open>
  What the constructor does besides computing its result is kept in a trace: every call
  of \<open>envUtils.lookupPcEnv\<close> and every instance it creates, in program order. A
  \<open>throw\<close> is the left summand: an \<open>Error\<close> with its message, or the
  \<open>TypeError\<close> of a call of undefined (its message is the engine's).
\<close>

datatype error = Error string | TypeError

datatype event = Called_lookupPcEnv string bool | Constructed api

type_synonym 'a outcome = "event list \<times> (error + 'a)"

definition invalid_query_param :: string where
  "invalid_query_param = ''Invalid query param name provided.  Must be non-null, non-empty string''"

definition invalid_pcEnvironment :: string where
  "invalid_pcEnvironment = ''Invalid pcEnvironment provided.  Must be a non-null, non-empty string''"

definition invalid_pcOrigin :: string where
  "invalid_pcOrigin = ''Invalid pcOrigin provided.  Must be a non-null, non-empty string''"

definition could_not_parse :: "string \<Rightarrow> string" where
  "could_not_parse v =
     ''Could not parse '' @ [CHR 0x27] @ v @ [CHR 0x27] @ '' into a known PureCloud environment''"

definition no_unique_value :: "string \<Rightarrow> string" where
  "no_unique_value paramName =
     ''Could not find unique value for '' @ paramName @ '' parameter on Query String''"

text \<open>
  \<open>this._pcEnv = envUtils.lookupPcEnv(v, true); if (!this._pcEnv) throw ...\<close>, the
  two statements shared by the query-parameter branch and the \<open>pcEnvironment\<close> branch.
\<close>

definition lookup_or_throw :: "EnvUtils \<Rightarrow> string \<Rightarrow> (PcEnv option \<times> string option) outcome" where
  "lookup_or_throw U v =
     ([Called_lookupPcEnv v True],
      case lookupPcEnv U v True of
        None \<Rightarrow> Inl (Error (could_not_parse v))
      | Some env \<Rightarrow> Inr (Some env, None))"

text \<open>
  The block \<open>if (cfg) { ... }\<close> of the constructor (lines 151 to 184). It returns the
  two private fields \<open>(_pcEnv, _customPcOrigin)\<close>, both initially null, or throws. On
  an object without prototype the first call of \<open>cfg.hasOwnProperty\<close> (line 152) throws.
\<close>

definition resolve :: "EnvUtils \<Rightarrow> query \<Rightarrow> argument \<Rightarrow> (PcEnv option \<times> string option) outcome" where
  "resolve U q cfg =
     (case cfg of
        Falsy \<Rightarrow> ([], Inr (None, None))
      | NullProto c \<Rightarrow> ([], Inl TypeError)
      | Object c \<Rightarrow>
          (case pcEnvironmentQueryParam c of
             Some paramName \<Rightarrow>
               (case paramName of
                  JString name \<Rightarrow>
                    if length (trim name) = 0 then ([], Inl (Error invalid_query_param))
                    else
                      (case parsed q name of
                         QString paramValue \<Rightarrow>
                           if paramValue \<noteq> [] then lookup_or_throw U paramValue
                           else ([], Inl (Error (no_unique_value name)))
                       | _ \<Rightarrow> ([], Inl (Error (no_unique_value name))))
                | _ \<Rightarrow> ([], Inl (Error invalid_query_param)))
           | None \<Rightarrow>
               (case pcEnvironment c of
                  Some env \<Rightarrow>
                    (case env of
                       JString tld \<Rightarrow>
                         if length (trim tld) = 0 then ([], Inl (Error invalid_pcEnvironment))
                         else lookup_or_throw U tld
                     | _ \<Rightarrow> ([], Inl (Error invalid_pcEnvironment)))
                | None \<Rightarrow>
                    (case pcOrigin c of
                       Some origin \<Rightarrow>
                         (case origin of
                            JString s \<Rightarrow>
                              if length (trim s) = 0 then ([], Inl (Error invalid_pcOrigin))
                              else ([], Inr (None, Some s))
                          | _ \<Rightarrow> ([], Inl (Error invalid_pcOrigin)))
                     | None \<Rightarrow> ([], Inr (None, None))))))"

text \<open>
  The rest of the constructor (lines 186 to 201): the default environment when both
  fields are falsy, the one \<open>apiCfg\<close> object, and the seven instances created with it.
\<close>

definition falsy :: "string option \<Rightarrow> bool" where
  "falsy s = (s = None \<or> s = Some [])"

definition build :: "EnvUtils \<Rightarrow> PcEnv option \<Rightarrow> string option \<Rightarrow> event list \<times> ClientApp" where
  "build U env0 custom =
     (let env = (if env0 = None \<and> falsy custom then Some (DEFAULT_PC_ENV U) else env0);
          cfg = \<lparr>targetPcOrigin = (case env of Some e \<Rightarrow> Some (pcAppOrigin e) | None \<Rightarrow> custom)\<rparr>
      in (map Constructed
            [New AlertingApi cfg, New LifecycleApi cfg, New CoreUiApi cfg, New UsersApi cfg,
             New ConversationsApi cfg, New MyConversationsApi cfg, New ExternalContactsApi cfg],
          \<lparr>priv_pcEnv = env, priv_customPcOrigin = custom,
           alerting = New AlertingApi cfg, lifecycle = New LifecycleApi cfg,
           coreUi = New CoreUiApi cfg, users = New UsersApi cfg,
           conversations = New ConversationsApi cfg,
           myConversations = New MyConversationsApi cfg,
           externalContacts = New ExternalContactsApi cfg\<rparr>))"

definition ClientApp_constructor :: "EnvUtils \<Rightarrow> query \<Rightarrow> argument \<Rightarrow> ClientApp outcome" where
  "ClientApp_constructor U q cfg =
     (case resolve U q cfg of
        (tr, Inl err) \<Rightarrow> (tr, Inl err)
      | (tr, Inr (env0, custom)) \<Rightarrow>
          (case build U env0 custom of (tr', app) \<Rightarrow> (tr @ tr', Inr app)))"

text \<open>The getter \<open>pcEnvironment\<close>: \<open>this._pcEnv ? this._pcEnv.pcEnvTld : null\<close>.\<close>

definition get_pcEnvironment :: "ClientApp \<Rightarrow> string option" where
  "get_pcEnvironment app = (case priv_pcEnv app of Some env \<Rightarrow> Some (pcEnvTld env) | None \<Rightarrow> None)"

text \<open>
  The static members. \<open>__PACKAGE_NAME__\<close> and \<open>__PACKAGE_VERSION__\<close> are replaced at
  build time; they are parameters here.
\<close>

definition version :: "string \<Rightarrow> string" where
  "version PACKAGE_VERSION = PACKAGE_VERSION"

definition about :: "string \<Rightarrow> string \<Rightarrow> string" where
  "about PACKAGE_NAME PACKAGE_VERSION = PACKAGE_NAME @ ''v'' @ PACKAGE_VERSION"

section \<open>Observations on an outcome\<close>

definition facades :: "ClientApp \<Rightarrow> api list" where
  "facades app =
     [alerting app, lifecycle app, coreUi app, users app, conversations app,
      myConversations app, externalContacts app]"


fun lookups :: "event list \<Rightarrow> (string \<times> bool) list" where
  "lookups [] = []"
| "lookups (Called_lookupPcEnv v lenient # es) = (v, lenient) # lookups es"
| "lookups (Constructed a # es) = lookups es"

definition all_classes :: "api_class list" where
  "all_classes =
     [AlertingApi, LifecycleApi, CoreUiApi, UsersApi, ConversationsApi,
      MyConversationsApi, ExternalContactsApi]"

section \<open>A sample catalog\<close>

text \<open>
  A catalog with one environment, for evaluating the model at concrete inputs. The
  identifier and the origin are the examples the source's comments give.
\<close>

definition sample_env :: PcEnv where
  "sample_env = \<lparr>pcEnvTld = ''mypurecloud.com'', pcAppOrigin = ''https://apps.mypurecloud.com''\<rparr>"

definition sample_catalog :: EnvUtils where
  "sample_catalog =
     \<lparr>lookupPcEnv = (\<lambda>v lenient. if v = ''mypurecloud.com'' then Some sample_env else None),
      DEFAULT_PC_ENV = sample_env\<rparr>"

section \<open>The resolution modes, as the specification words them\<close>

text \<open>
  The configuration with no option (the default argument \<open>{}\<close>), and the selection
  the specification describes: of the options present, only the first in the order
  query parameter, environment, origin is honoured, and the others are dropped.
  \<open>present\<close> lists the options a configuration holds, in that order.
\<close>

definition no_options :: config where
  "no_options = \<lparr>pcEnvironmentQueryParam = None, pcEnvironment = None, pcOrigin = None\<rparr>"

definition spec_honoured :: "config \<Rightarrow> config" where
  "spec_honoured c =
     (if pcEnvironmentQueryParam c \<noteq> None then c\<lparr>pcEnvironment := None, pcOrigin := None\<rparr>
      else if pcEnvironment c \<noteq> None then c\<lparr>pcOrigin := None\<rparr>
      else c)"

definition present :: "config \<Rightarrow> (string \<times> jsval) list" where
  "present c =
     concat (map (\<lambda>(key, f). case f c of None \<Rightarrow> [] | Some v \<Rightarrow> [(key, v)])
       [(''pcEnvironmentQueryParam'', pcEnvironmentQueryParam),
        (''pcEnvironment'', pcEnvironment),
        (''pcOrigin'', pcOrigin)])"

text \<open>
  The specification's resolution input, a tagged variant over the four modes, and the
  mode of a configuration: the first option present in the order query parameter,
  environment, origin, and the mode "none" when there is no option.
\<close>

datatype ResolutionInput =
  QueryParam jsval | ExplicitEnvironmentId jsval | ExplicitOrigin jsval | NoneGiven

definition spec_mode :: "config \<Rightarrow> ResolutionInput" where
  "spec_mode c =
     (case pcEnvironmentQueryParam c of
        Some paramName \<Rightarrow> QueryParam paramName
      | None \<Rightarrow>
          (case pcEnvironment c of
             Some env \<Rightarrow> ExplicitEnvironmentId env
           | None \<Rightarrow>
               (case pcOrigin c of
                  Some origin \<Rightarrow> ExplicitOrigin origin
                | None \<Rightarrow> NoneGiven)))"

text \<open>
  What the specification says each mode produces. A success is the instance whose
  seven facades share the configuration with the given target origin, after the given
  lookups; a failure is the error, with no facade.
\<close>

definition spec_instance :: "PcEnv option \<Rightarrow> string option \<Rightarrow> string \<Rightarrow> ClientApp" where
  "spec_instance env custom origin =
     \<lparr>priv_pcEnv = env, priv_customPcOrigin = custom,
      alerting = New AlertingApi \<lparr>targetPcOrigin = Some origin\<rparr>,
      lifecycle = New LifecycleApi \<lparr>targetPcOrigin = Some origin\<rparr>,
      coreUi = New CoreUiApi \<lparr>targetPcOrigin = Some origin\<rparr>,
      users = New UsersApi \<lparr>targetPcOrigin = Some origin\<rparr>,
      conversations = New ConversationsApi \<lparr>targetPcOrigin = Some origin\<rparr>,
      myConversations = New MyConversationsApi \<lparr>targetPcOrigin = Some origin\<rparr>,
      externalContacts = New ExternalContactsApi \<lparr>targetPcOrigin = Some origin\<rparr>\<rparr>"

definition spec_succeeds ::
  "event list \<Rightarrow> PcEnv option \<Rightarrow> string option \<Rightarrow> string \<Rightarrow> ClientApp outcome" where
  "spec_succeeds tr env custom origin =
     (tr @ map (\<lambda>k. Constructed (New k \<lparr>targetPcOrigin = Some origin\<rparr>)) all_classes,
      Inr (spec_instance env custom origin))"

definition spec_fails :: "event list \<Rightarrow> string \<Rightarrow> ClientApp outcome" where
  "spec_fails tr msg = (tr, Inl (Error msg))"

text \<open>The lenient catalog lookup of a value, shared by the first two modes.\<close>

definition spec_catalog :: "EnvUtils \<Rightarrow> string \<Rightarrow> ClientApp outcome" where
  "spec_catalog U v =
     (case lookupPcEnv U v True of
        None \<Rightarrow> spec_fails [Called_lookupPcEnv v True] (could_not_parse v)
      | Some env \<Rightarrow> spec_succeeds [Called_lookupPcEnv v True] (Some env) None (pcAppOrigin env))"

text \<open>
  The four modes. Query parameter: fails on a name that is no string or is blank, and on
  a parameter that does not occur exactly once with a non-empty value; otherwise the
  catalog decides. Environment: fails on a value that is no string or is blank;
  otherwise the catalog decides. Origin: fails on a value that is no string or is blank;
  otherwise the value is the target, with no lookup. None: the default environment.
\<close>

fun spec_resolution :: "EnvUtils \<Rightarrow> query \<Rightarrow> ResolutionInput \<Rightarrow> ClientApp outcome" where
  "spec_resolution U q (QueryParam (JString name)) =
     (if list_all isWhiteSpace name then spec_fails [] invalid_query_param
      else
        (case occurrences q name of
           [Some v] \<Rightarrow> if v = [] then spec_fails [] (no_unique_value name) else spec_catalog U v
         | _ \<Rightarrow> spec_fails [] (no_unique_value name)))"
| "spec_resolution U q (QueryParam _) = spec_fails [] invalid_query_param"
| "spec_resolution U q (ExplicitEnvironmentId (JString v)) =
     (if list_all isWhiteSpace v then spec_fails [] invalid_pcEnvironment else spec_catalog U v)"
| "spec_resolution U q (ExplicitEnvironmentId _) = spec_fails [] invalid_pcEnvironment"
| "spec_resolution U q (ExplicitOrigin (JString s)) =
     (if list_all isWhiteSpace s then spec_fails [] invalid_pcOrigin
      else spec_succeeds [] None (Some s) s)"
| "spec_resolution U q (ExplicitOrigin _) = spec_fails [] invalid_pcOrigin"
| "spec_resolution U q NoneGiven =
     spec_succeeds [] (Some (DEFAULT_PC_ENV U)) None (pcAppOrigin (DEFAULT_PC_ENV U))"

text \<open>
  The value of \<open>targetPcOrigin\<close> that lines 186 to 193 compute from the two private
  fields as the \<open>if (cfg)\<close> block left them.
\<close>

definition target :: "EnvUtils \<Rightarrow> PcEnv option \<Rightarrow> string option \<Rightarrow> string option" where
  "target U env0 custom =
     (if env0 = None \<and> falsy custom then Some (pcAppOrigin (DEFAULT_PC_ENV U))
      else case env0 of Some e \<Rightarrow> Some (pcAppOrigin e) | None \<Rightarrow> custom)"

section \<open>Basic facts\<close>

lemma dropWhile_all: "list_all P (dropWhile P xs) \<longleftrightarrow> list_all P xs"
  by (induction xs) simp_all

lemma trim_blank_iff: "length (trim s) = 0 \<longleftrightarrow> list_all isWhiteSpace s"
proof -
  have "length (trim s) = 0 \<longleftrightarrow> list_all isWhiteSpace (dropWhile isWhiteSpace s)"
    by (simp add: trim_def list_all_iff)
  then show ?thesis
    by (simp add: dropWhile_all)
qed

lemma trim_Nil: "trim [] = []"
  by (simp add: trim_def)

lemma not_blank_not_empty: "length (trim s) \<noteq> 0 \<Longrightarrow> s \<noteq> []"
  by (auto simp: trim_Nil)

lemma resolve_success:
  assumes "resolve U q cfg = (tr, Inr (env0, custom))"
  shows "(tr = [] \<and> env0 = None \<and> custom = None)
       \<or> (\<exists>v env. tr = [Called_lookupPcEnv v True] \<and> lookupPcEnv U v True = Some env
             \<and> env0 = Some env \<and> custom = None)
       \<or> (\<exists>c s. tr = [] \<and> env0 = None \<and> custom = Some s \<and> s \<noteq> []
             \<and> cfg = Object c \<and> pcOrigin c = Some (JString s))"
  using assms
  by (auto simp: resolve_def lookup_or_throw_def trim_Nil
           split: argument.splits option.splits jsval.splits qsval.splits if_splits)


lemma build_trace: "fst (build U env0 custom) = map Constructed (facades (snd (build U env0 custom)))"
  by (simp add: build_def facades_def Let_def)

lemma build_facades:
  "facades (snd (build U env0 custom)) =
     map (\<lambda>k. New k \<lparr>targetPcOrigin = target U env0 custom\<rparr>) all_classes"
  by (simp add: build_def facades_def all_classes_def Let_def target_def)

lemma build_fields:
  "priv_pcEnv (snd (build U env0 custom)) =
     (if env0 = None \<and> falsy custom then Some (DEFAULT_PC_ENV U) else env0)"
  "priv_customPcOrigin (snd (build U env0 custom)) = custom"
  by (simp_all add: build_def Let_def)

lemma constructor_success:
  "resolve U q cfg = (tr, Inr (env0, custom)) \<Longrightarrow>
   ClientApp_constructor U q cfg =
     (tr @ map Constructed (facades (snd (build U env0 custom))), Inr (snd (build U env0 custom)))"
  by (simp add: ClientApp_constructor_def build_trace [symmetric] split: prod.splits)

lemma constructor_failure:
  "resolve U q cfg = (tr, Inl err) \<Longrightarrow> ClientApp_constructor U q cfg = (tr, Inl err)"
  by (simp add: ClientApp_constructor_def)

lemma constructor_cases:
  "(\<exists>tr err. resolve U q cfg = (tr, Inl err) \<and> ClientApp_constructor U q cfg = (tr, Inl err))
   \<or> (\<exists>tr env0 custom. resolve U q cfg = (tr, Inr (env0, custom))
         \<and> ClientApp_constructor U q cfg =
             (tr @ map Constructed (facades (snd (build U env0 custom))),
              Inr (snd (build U env0 custom))))"
proof (cases "resolve U q cfg")
  case (Pair tr r)
  then show ?thesis
    by (cases r) (auto simp: constructor_success constructor_failure)
qed



lemma lookups_map: "lookups (map Constructed fs) = []"
  by (induction fs) simp_all

lemma collect_not_one: "vs = [] \<or> 1 < length vs \<Longrightarrow> \<forall>v. collect vs \<noteq> QString v"
  by (induction vs rule: collect.induct) simp_all

lemma resolve_honoured: "resolve U q (Object c) = resolve U q (Object (spec_honoured c))"
  by (simp add: resolve_def spec_honoured_def split: option.splits)

lemma constructor_resolve:
  "resolve U q cfg = resolve U q cfg' \<Longrightarrow>
   ClientApp_constructor U q cfg = ClientApp_constructor U q cfg'"
  by (simp add: ClientApp_constructor_def)

lemma sample_lookup:
  "lookupPcEnv sample_catalog v True = Some env \<Longrightarrow> pcAppOrigin env \<noteq> []"
  by (auto simp: sample_catalog_def sample_env_def split: if_splits)

lemma sample_default: "pcAppOrigin (DEFAULT_PC_ENV sample_catalog) \<noteq> []"
  by (simp add: sample_catalog_def sample_env_def)

lemma trim_empty_iff: "trim s = [] \<longleftrightarrow> list_all isWhiteSpace s"
  using trim_blank_iff [of s] by simp

lemma collect_string: "collect vs = QString v \<longleftrightarrow> vs = [Some v]"
  by (induction vs rule: collect.induct) auto

lemma parsed_string: "parsed q name = QString v \<longleftrightarrow> occurrences q name = [Some v]"
  by (simp add: parsed_def collect_string)

lemma constructor_succeeds:
  assumes "resolve U q cfg = (tr, Inr (env0, custom))"
      and "target U env0 custom = Some origin"
  shows "ClientApp_constructor U q cfg =
     spec_succeeds tr (if env0 = None \<and> falsy custom then Some (DEFAULT_PC_ENV U) else env0)
       custom origin"
  using assms
  by (auto simp: ClientApp_constructor_def build_def Let_def target_def spec_succeeds_def
        spec_instance_def all_classes_def split: if_splits)

lemma constructor_fails:
  "resolve U q cfg = (tr, Inl (Error msg)) \<Longrightarrow> ClientApp_constructor U q cfg = spec_fails tr msg"
  by (simp add: ClientApp_constructor_def spec_fails_def)

lemma constructor_catalog:
  assumes "resolve U q cfg = lookup_or_throw U v"
  shows "ClientApp_constructor U q cfg = spec_catalog U v"
proof (cases "lookupPcEnv U v True")
  case None
  with assms have "resolve U q cfg = ([Called_lookupPcEnv v True], Inl (Error (could_not_parse v)))"
    by (simp add: lookup_or_throw_def)
  from constructor_fails [OF this] None show ?thesis
    by (simp add: spec_catalog_def)
next
  case (Some env)
  with assms have "resolve U q cfg = ([Called_lookupPcEnv v True], Inr (Some env, None))"
    by (simp add: lookup_or_throw_def)
  from constructor_succeeds [OF this, of "pcAppOrigin env"] Some show ?thesis
    by (simp add: spec_catalog_def target_def)
qed

lemma query_param_mode:
  "ClientApp_constructor U q
     (Object \<lparr>pcEnvironmentQueryParam = Some p, pcEnvironment = e, pcOrigin = o'\<rparr>) =
   spec_resolution U q (QueryParam p)"
proof (cases p)
  case (JString name)
  let ?cfg = "Object \<lparr>pcEnvironmentQueryParam = Some (JString name), pcEnvironment = e,
    pcOrigin = o'\<rparr>"
  show ?thesis
  proof (cases "list_all isWhiteSpace name")
    case True
    then have "resolve U q ?cfg = ([], Inl (Error invalid_query_param))"
      by (simp add: resolve_def trim_empty_iff)
    from constructor_fails [OF this] True JString show ?thesis
      by simp
  next
    case False
    then have nb: "length (trim name) \<noteq> 0"
      by (simp add: trim_empty_iff)
    show ?thesis
    proof (cases "\<exists>v. occurrences q name = [Some v] \<and> v \<noteq> []")
      case True
      then obtain v where v: "occurrences q name = [Some v]" "v \<noteq> []"
        by blast
      then have "parsed q name = QString v"
        by (simp add: parsed_string)
      with nb v have "resolve U q ?cfg = lookup_or_throw U v"
        by (simp add: resolve_def)
      from constructor_catalog [OF this] v False JString show ?thesis
        by simp
    next
      case no: False
      then have "\<And>v. parsed q name = QString v \<Longrightarrow> v = []"
        by (auto simp: parsed_string)
      with nb have "resolve U q ?cfg = ([], Inl (Error (no_unique_value name)))"
        by (auto simp: resolve_def split: qsval.splits)
      from constructor_fails [OF this] no False JString show ?thesis
        by (auto split: list.splits option.splits)
    qed
  qed
qed (simp_all add: constructor_fails resolve_def)

lemma environment_mode:
  "ClientApp_constructor U q
     (Object \<lparr>pcEnvironmentQueryParam = None, pcEnvironment = Some e, pcOrigin = o'\<rparr>) =
   spec_resolution U q (ExplicitEnvironmentId e)"
proof (cases e)
  case (JString v)
  let ?cfg = "Object \<lparr>pcEnvironmentQueryParam = None, pcEnvironment = Some (JString v),
    pcOrigin = o'\<rparr>"
  show ?thesis
  proof (cases "list_all isWhiteSpace v")
    case True
    then have "resolve U q ?cfg = ([], Inl (Error invalid_pcEnvironment))"
      by (simp add: resolve_def trim_empty_iff)
    from constructor_fails [OF this] True JString show ?thesis
      by simp
  next
    case False
    then have "resolve U q ?cfg = lookup_or_throw U v"
      by (simp add: resolve_def trim_empty_iff)
    from constructor_catalog [OF this] False JString show ?thesis
      by simp
  qed
qed (simp_all add: constructor_fails resolve_def)

lemma origin_mode:
  "ClientApp_constructor U q
     (Object \<lparr>pcEnvironmentQueryParam = None, pcEnvironment = None, pcOrigin = Some origin\<rparr>) =
   spec_resolution U q (ExplicitOrigin origin)"
proof (cases origin)
  case (JString s)
  let ?cfg = "Object \<lparr>pcEnvironmentQueryParam = None, pcEnvironment = None,
    pcOrigin = Some (JString s)\<rparr>"
  show ?thesis
  proof (cases "list_all isWhiteSpace s")
    case True
    then have "resolve U q ?cfg = ([], Inl (Error invalid_pcOrigin))"
      by (simp add: resolve_def trim_empty_iff)
    from constructor_fails [OF this] True JString show ?thesis
      by simp
  next
    case False
    then have nb: "length (trim s) \<noteq> 0"
      by (simp add: trim_empty_iff)
    then have r: "resolve U q ?cfg = ([], Inr (None, Some s))"
      by (simp add: resolve_def)
    from nb have "s \<noteq> []"
      by (rule not_blank_not_empty)
    then have "target U None (Some s) = Some s" "\<not> falsy (Some s)"
      by (simp_all add: target_def falsy_def)
    with constructor_succeeds [OF r, of s] False JString show ?thesis
      by simp
  qed
qed (simp_all add: constructor_fails resolve_def)

lemma none_mode:
  "ClientApp_constructor U q Falsy = spec_resolution U q NoneGiven"
  "ClientApp_constructor U q (Object no_options) = spec_resolution U q NoneGiven"
proof -
  have r: "resolve U q Falsy = ([], Inr (None, None))"
    "resolve U q (Object no_options) = ([], Inr (None, None))"
    by (simp_all add: resolve_def no_options_def)
  have t: "target U None None = Some (pcAppOrigin (DEFAULT_PC_ENV U))"
    by (simp add: target_def falsy_def)
  from constructor_succeeds [OF r(1) t] show "ClientApp_constructor U q Falsy = spec_resolution U q NoneGiven"
    by (simp add: falsy_def)
  from constructor_succeeds [OF r(2) t]
  show "ClientApp_constructor U q (Object no_options) = spec_resolution U q NoneGiven"
    by (simp add: falsy_def)
qed

lemma null_prototype: "ClientApp_constructor U q (NullProto c) = ([], Inl TypeError)"
  by (simp add: ClientApp_constructor_def resolve_def)

section \<open>Claims\<close>

text \<open>
  In the theorems below \<open>U\<close> is the environment catalog, \<open>q\<close> the page's query string and
  the third argument the configuration. An outcome \<open>(tr, Inr app)\<close> is a constructor that
  returned the instance \<open>app\<close>, an outcome \<open>(tr, Inl (Error msg))\<close> one that threw; the
  specification's \<open>ConfigurationError\<close> is this \<open>Error\<close>, the only kind the constructor
  throws itself. The channel configuration of an instance is the \<open>apiCfg\<close> its facades
  hold. Where a theorem fixes the configuration it is an ordinary object (\<open>Object\<close>).
\<close>

text \<open>
  Claim C1. Whenever construction succeeds, every facade holds the same configuration,
  whose \<open>targetPcOrigin\<close> is a non-empty string with exactly one source: either the
  instance has a resolved environment (the default one or a result of the catalog's
  lookup) and no custom origin, and the target is that environment's \<open>pcAppOrigin\<close>; or it
  has a custom origin and no environment, and the target is the \<open>pcOrigin\<close> string the
  caller supplied. The catalog is a parameter: its origins are taken to be non-empty.
\<close>

theorem target_origin_has_one_source:
  assumes catalog: "\<And>v env. lookupPcEnv U v True = Some env \<Longrightarrow> pcAppOrigin env \<noteq> []"
      and dflt: "pcAppOrigin (DEFAULT_PC_ENV U) \<noteq> []"
      and ok: "ClientApp_constructor U q cfg = (tr, Inr app)"
  shows "\<exists>origin. origin \<noteq> []
           \<and> facades app = map (\<lambda>k. New k \<lparr>targetPcOrigin = Some origin\<rparr>) all_classes
           \<and> ((\<exists>env. priv_pcEnv app = Some env \<and> priv_customPcOrigin app = None
                    \<and> origin = pcAppOrigin env
                    \<and> (env = DEFAULT_PC_ENV U \<or> (\<exists>v. lookupPcEnv U v True = Some env)))
              \<or> (priv_pcEnv app = None \<and> priv_customPcOrigin app = Some origin
                    \<and> (\<exists>c. cfg = Object c \<and> pcOrigin c = Some (JString origin))))"
proof -
  from ok obtain pre env0 custom where r: "resolve U q cfg = (pre, Inr (env0, custom))"
    and app: "app = snd (build U env0 custom)"
    using constructor_cases [of U q cfg] by auto
  from resolve_success [OF r] consider
      (none) "env0 = None" "custom = None"
    | (known) v env where "lookupPcEnv U v True = Some env" "env0 = Some env" "custom = None"
    | (custom) c s where "env0 = None" "custom = Some s" "s \<noteq> []" "cfg = Object c"
        "pcOrigin c = Some (JString s)"
    by blast
  then show ?thesis
  proof cases
    case none
    with dflt show ?thesis
      by (simp add: app build_facades build_fields target_def falsy_def)
  next
    case known
    with catalog [of v env] show ?thesis
      by (auto simp: app build_facades build_fields target_def falsy_def)
  next
    case custom
    then show ?thesis
      by (simp add: app build_facades build_fields target_def falsy_def)
  qed
qed

text \<open>
  The theorem at \<open>{ pcOrigin: 'https://example-host.test' }\<close> with the sample catalog:
  construction succeeds and the target is the custom origin.
\<close>

theorem target_origin_has_one_source_witness:
  "\<exists>tr app. ClientApp_constructor sample_catalog []
       (Object \<lparr>pcEnvironmentQueryParam = None, pcEnvironment = None,
              pcOrigin = Some (JString ''https://example-host.test'')\<rparr>) = (tr, Inr app)
     \<and> facades app =
         map (\<lambda>k. New k \<lparr>targetPcOrigin = Some ''https://example-host.test''\<rparr>) all_classes
     \<and> priv_pcEnv app = None"
proof -
  let ?cfg = "Object \<lparr>pcEnvironmentQueryParam = None, pcEnvironment = None,
    pcOrigin = Some (JString ''https://example-host.test'')\<rparr>"
  let ?app = "snd (build sample_catalog None (Some ''https://example-host.test''))"
  have "resolve sample_catalog [] ?cfg = ([], Inr (None, Some ''https://example-host.test''))"
    by (simp add: resolve_def trim_def isWhiteSpace_def)
  from constructor_success [OF this]
  have ok: "ClientApp_constructor sample_catalog [] ?cfg = (map Constructed (facades ?app), Inr ?app)"
    by simp
  have none: "priv_pcEnv ?app = None"
    by (simp add: build_fields falsy_def)
  have cat: "\<And>v env. lookupPcEnv sample_catalog v True = Some env \<Longrightarrow> pcAppOrigin env \<noteq> []"
    by (rule sample_lookup)
  from target_origin_has_one_source [OF cat sample_default ok] none
  have "facades ?app =
      map (\<lambda>k. New k \<lparr>targetPcOrigin = Some ''https://example-host.test''\<rparr>) all_classes"
    by auto
  with ok none show ?thesis
    by blast
qed

text \<open>
  Claim C2. The modes are evaluated in the fixed order query parameter, environment,
  origin, none, and at most one is honoured. For every ordinary configuration object the
  constructor's whole outcome (the trace, and the instance or the error) is what the
  specification gives for the mode of the first option present in that order, applied
  to that option's value alone: the catalog's answer for the query parameter's value or
  for the environment, the origin itself, or the default environment when no option is
  present. The options after the first one present are ignored: dropping them leaves the
  outcome unchanged. A falsy argument is in the mode none. On an object without prototype
  the first test of the chain, the one for the query parameter, throws a
  \<open>TypeError\<close>, and no mode is honoured.
\<close>

theorem modes_in_priority_order:
  "ClientApp_constructor U q (Object c) = spec_resolution U q (spec_mode c)
   \<and> ClientApp_constructor U q (Object c) = ClientApp_constructor U q (Object (spec_honoured c))
   \<and> present (spec_honoured c) = take 1 (present c)
   \<and> length (present (spec_honoured c)) \<le> 1
   \<and> ClientApp_constructor U q Falsy = spec_resolution U q NoneGiven
   \<and> ClientApp_constructor U q (NullProto c) = ([], Inl TypeError)"
proof -
  obtain p e o' where c: "c = \<lparr>pcEnvironmentQueryParam = p, pcEnvironment = e, pcOrigin = o'\<rparr>"
    by (cases c) simp
  have "ClientApp_constructor U q (Object c) = spec_resolution U q (spec_mode c)"
  proof (cases p)
    case (Some paramName)
    with c show ?thesis
      by (simp add: spec_mode_def query_param_mode)
  next
    case no_param: None
    show ?thesis
    proof (cases e)
      case (Some env)
      with c no_param show ?thesis
        by (simp add: spec_mode_def environment_mode)
    next
      case no_env: None
      show ?thesis
      proof (cases o')
        case (Some origin)
        with c no_param no_env show ?thesis
          by (simp add: spec_mode_def origin_mode)
      next
        case None
        with c no_param no_env have "c = no_options"
          by (simp add: no_options_def)
        then show ?thesis
          by (simp add: none_mode) (simp add: spec_mode_def no_options_def)
      qed
    qed
  qed
  moreover
  have "ClientApp_constructor U q (Object c) = ClientApp_constructor U q (Object (spec_honoured c))"
    by (rule constructor_resolve [OF resolve_honoured])
  moreover have "present (spec_honoured c) = take 1 (present c)"
    by (simp add: spec_honoured_def present_def split: option.splits)
  moreover have "length (present (spec_honoured c)) \<le> 1"
    by (simp add: spec_honoured_def present_def split: option.splits)
  moreover have "ClientApp_constructor U q Falsy = spec_resolution U q NoneGiven"
    by (rule none_mode)
  moreover have "ClientApp_constructor U q (NullProto c) = ([], Inl TypeError)"
    by (rule null_prototype)
  ultimately show ?thesis
    by blast
qed

text \<open>
  The theorem at \<open>{ pcEnvironment: 'mypurecloud.com', pcOrigin: 'https://example-host.test' }\<close>
  with the sample catalog: the environment is looked up and found, the target is its
  origin, and the \<open>pcOrigin\<close> option plays no part.
\<close>

theorem modes_in_priority_order_witness:
  "ClientApp_constructor sample_catalog []
     (Object \<lparr>pcEnvironmentQueryParam = None, pcEnvironment = Some (JString ''mypurecloud.com''),
              pcOrigin = Some (JString ''https://example-host.test'')\<rparr>) =
   (Called_lookupPcEnv ''mypurecloud.com'' True
      # map (\<lambda>k. Constructed (New k \<lparr>targetPcOrigin = Some ''https://apps.mypurecloud.com''\<rparr>))
          all_classes,
    Inr (spec_instance (Some sample_env) None ''https://apps.mypurecloud.com''))"
proof -
  let ?c = "\<lparr>pcEnvironmentQueryParam = None, pcEnvironment = Some (JString ''mypurecloud.com''),
    pcOrigin = Some (JString ''https://example-host.test'')\<rparr>"
  have m: "spec_mode ?c = ExplicitEnvironmentId (JString ''mypurecloud.com'')"
    by (simp add: spec_mode_def)
  have k: "lookupPcEnv sample_catalog ''mypurecloud.com'' True = Some sample_env"
    by (simp add: sample_catalog_def)
  have o: "pcAppOrigin sample_env = ''https://apps.mypurecloud.com''"
    by (simp add: sample_env_def)
  have "spec_resolution sample_catalog [] (spec_mode ?c) =
      (Called_lookupPcEnv ''mypurecloud.com'' True
         # map (\<lambda>k. Constructed (New k \<lparr>targetPcOrigin = Some ''https://apps.mypurecloud.com''\<rparr>))
             all_classes,
       Inr (spec_instance (Some sample_env) None ''https://apps.mypurecloud.com''))"
    unfolding m using k o by (simp add: spec_catalog_def spec_succeeds_def isWhiteSpace_def)
  with modes_in_priority_order [of sample_catalog "[]" ?c, THEN conjunct1] show ?thesis
    by (simp only:)
qed

text \<open>
  Claim C3. In the explicit-origin mode (\<open>pcOrigin\<close> is the option honoured: neither
  \<open>pcEnvironmentQueryParam\<close> nor \<open>pcEnvironment\<close> is present), for every string that is
  not blank, whatever the catalog and the query string: construction succeeds, the trace
  holds the seven constructions and no call of \<open>lookupPcEnv\<close>, every facade's
  \<open>targetPcOrigin\<close> is the supplied string itself, and the getter \<open>pcEnvironment\<close>
  returns null.
\<close>

theorem explicit_origin_is_verbatim:
  assumes "\<not> list_all isWhiteSpace s"
  shows "\<exists>tr app. ClientApp_constructor U q
             (Object \<lparr>pcEnvironmentQueryParam = None, pcEnvironment = None,
                    pcOrigin = Some (JString s)\<rparr>) = (tr, Inr app)
           \<and> tr = map Constructed (facades app)
           \<and> lookups tr = []
           \<and> facades app = map (\<lambda>k. New k \<lparr>targetPcOrigin = Some s\<rparr>) all_classes
           \<and> priv_customPcOrigin app = Some s
           \<and> get_pcEnvironment app = None"
proof -
  let ?cfg = "Object \<lparr>pcEnvironmentQueryParam = None, pcEnvironment = None,
    pcOrigin = Some (JString s)\<rparr>"
  from assms have nb: "length (trim s) \<noteq> 0"
    by (simp only: trim_blank_iff not_False_eq_True)
  then have r: "resolve U q ?cfg = ([], Inr (None, Some s))"
    by (simp add: resolve_def)
  from nb have ne: "s \<noteq> []"
    by (rule not_blank_not_empty)
  let ?app = "snd (build U None (Some s))"
  from ne have "facades ?app = map (\<lambda>k. New k \<lparr>targetPcOrigin = Some s\<rparr>) all_classes"
    by (simp add: build_facades target_def falsy_def)
  moreover from ne have "get_pcEnvironment ?app = None"
    by (simp add: get_pcEnvironment_def build_fields falsy_def)
  moreover have "priv_customPcOrigin ?app = Some s"
    by (simp add: build_fields)
  moreover have "ClientApp_constructor U q ?cfg = (map Constructed (facades ?app), Inr ?app)"
    using constructor_success [OF r] by simp
  moreover have "lookups (map Constructed (facades ?app)) = []"
    by (rule lookups_map)
  ultimately show ?thesis
    by blast
qed

text \<open>The theorem at the specification's example origin.\<close>

theorem explicit_origin_is_verbatim_witness:
  "\<not> list_all isWhiteSpace ''https://example-host.test''
   \<and> (\<exists>tr app. ClientApp_constructor sample_catalog []
          (Object \<lparr>pcEnvironmentQueryParam = None, pcEnvironment = None,
                 pcOrigin = Some (JString ''https://example-host.test'')\<rparr>) = (tr, Inr app)
        \<and> lookups tr = []
        \<and> facades app =
            map (\<lambda>k. New k \<lparr>targetPcOrigin = Some ''https://example-host.test''\<rparr>) all_classes
        \<and> get_pcEnvironment app = None)"
proof -
  have h: "\<not> list_all isWhiteSpace ''https://example-host.test''"
    by (simp add: isWhiteSpace_def)
  from explicit_origin_is_verbatim [OF h, of sample_catalog "[]"] h show ?thesis
    by blast
qed



text \<open>
  Claim C5, as amended. In the query-parameter mode (\<open>pcEnvironmentQueryParam\<close> is
  present, whatever the other two options), for every parameter name that is not blank
  and occurs exactly once in the query string, with a non-empty value that the catalog's
  lenient lookup maps to an environment: construction succeeds after that one lookup, and
  every facade's \<open>targetPcOrigin\<close> is that environment's \<open>pcAppOrigin\<close>.
\<close>

theorem query_param_resolves_known_environment:
  assumes name: "\<not> list_all isWhiteSpace name"
      and once: "occurrences q name = [Some v]"
      and nonempty: "v \<noteq> []"
      and known: "lookupPcEnv U v True = Some env"
  shows "\<exists>app. ClientApp_constructor U q
             (Object \<lparr>pcEnvironmentQueryParam = Some (JString name), pcEnvironment = e,
                    pcOrigin = o'\<rparr>) =
               (Called_lookupPcEnv v True # map Constructed (facades app), Inr app)
           \<and> facades app =
               map (\<lambda>k. New k \<lparr>targetPcOrigin = Some (pcAppOrigin env)\<rparr>) all_classes
           \<and> priv_pcEnv app = Some env
           \<and> priv_customPcOrigin app = None"
proof -
  let ?cfg = "Object \<lparr>pcEnvironmentQueryParam = Some (JString name), pcEnvironment = e,
    pcOrigin = o'\<rparr>"
  from name have "length (trim name) \<noteq> 0"
    by (simp only: trim_blank_iff not_False_eq_True)
  with once nonempty known
  have r: "resolve U q ?cfg = ([Called_lookupPcEnv v True], Inr (Some env, None))"
    by (simp add: resolve_def parsed_def lookup_or_throw_def)
  let ?app = "snd (build U (Some env) None)"
  have "facades ?app =
      map (\<lambda>k. New k \<lparr>targetPcOrigin = Some (pcAppOrigin env)\<rparr>) all_classes"
    by (simp add: build_facades target_def)
  moreover have "priv_pcEnv ?app = Some env" "priv_customPcOrigin ?app = None"
    by (simp_all add: build_fields)
  moreover have "ClientApp_constructor U q ?cfg =
      (Called_lookupPcEnv v True # map Constructed (facades ?app), Inr ?app)"
    using constructor_success [OF r] by simp
  ultimately show ?thesis
    by blast
qed

text \<open>
  The claim as it was stated, for every parameter name, fails at the name that is one
  space: with the query string \<open>?%20=mypurecloud.com\<close> the parameter occurs exactly once
  and its value is a known environment, and the constructor throws at its guard on blank
  names (line 155) before it reads the query string.
\<close>

theorem blank_query_param_name_counterexample:
  "occurrences [('' '', Some ''mypurecloud.com'')] '' '' = [Some ''mypurecloud.com'']
   \<and> lookupPcEnv sample_catalog ''mypurecloud.com'' True = Some sample_env
   \<and> ClientApp_constructor sample_catalog [('' '', Some ''mypurecloud.com'')]
       (Object \<lparr>pcEnvironmentQueryParam = Some (JString '' ''), pcEnvironment = None,
              pcOrigin = None\<rparr>) =
     ([], Inl (Error invalid_query_param))"
  by (simp add: occurrences_def sample_catalog_def ClientApp_constructor_def resolve_def
        trim_def isWhiteSpace_def)

text \<open>
  The amended claim at the specification's example: the parameter name
  \<open>pcEnvironment\<close> and the query string \<open>?pcEnvironment=mypurecloud.com\<close>.
\<close>

theorem query_param_resolves_known_environment_witness:
  "\<exists>app. ClientApp_constructor sample_catalog [(''pcEnvironment'', Some ''mypurecloud.com'')]
       (Object \<lparr>pcEnvironmentQueryParam = Some (JString ''pcEnvironment''), pcEnvironment = None,
              pcOrigin = None\<rparr>) =
         (Called_lookupPcEnv ''mypurecloud.com'' True # map Constructed (facades app), Inr app)
     \<and> facades app =
         map (\<lambda>k. New k \<lparr>targetPcOrigin = Some ''https://apps.mypurecloud.com''\<rparr>) all_classes"
proof -
  have name: "\<not> list_all isWhiteSpace ''pcEnvironment''"
    by (simp add: isWhiteSpace_def)
  have once: "occurrences [(''pcEnvironment'', Some ''mypurecloud.com'')] ''pcEnvironment'' =
      [Some ''mypurecloud.com'']"
    by (simp add: occurrences_def)
  have nonempty: "''mypurecloud.com'' \<noteq> []"
    by simp
  have known: "lookupPcEnv sample_catalog ''mypurecloud.com'' True = Some sample_env"
    by (simp add: sample_catalog_def)
  have origin: "pcAppOrigin sample_env = ''https://apps.mypurecloud.com''"
    by (simp add: sample_env_def)
  from query_param_resolves_known_environment [OF name once nonempty known, of None None]
  show ?thesis
    unfolding origin by blast
qed

text \<open>
  Claim C6. In the query-parameter mode, for every parameter name that is absent from
  the query string or occurs there more than once, construction fails: the constructor
  throws before any lookup and before any facade is created. The error says that no
  unique value was found, or, for a blank name, that the name is invalid.
\<close>

theorem query_param_absent_or_repeated_fails:
  assumes "occurrences q name = [] \<or> 1 < length (occurrences q name)"
  shows "ClientApp_constructor U q
           (Object \<lparr>pcEnvironmentQueryParam = Some (JString name), pcEnvironment = e,
                  pcOrigin = o'\<rparr>) =
         ([], Inl (Error (if length (trim name) = 0 then invalid_query_param
                          else no_unique_value name)))"
proof -
  from collect_not_one [OF assms] have "\<forall>v. parsed q name \<noteq> QString v"
    by (simp add: parsed_def)
  then have "resolve U q
      (Object \<lparr>pcEnvironmentQueryParam = Some (JString name), pcEnvironment = e, pcOrigin = o'\<rparr>) =
      ([], Inl (Error (if length (trim name) = 0 then invalid_query_param
                       else no_unique_value name)))"
    by (simp add: resolve_def split: qsval.splits)
  then show ?thesis
    by (rule constructor_failure)
qed

text \<open>The theorem at the specification's example, the query string \<open>?env=a&env=b\<close>.\<close>

theorem query_param_absent_or_repeated_fails_witness:
  "1 < length (occurrences [(''env'', Some ''a''), (''env'', Some ''b'')] ''env'')
   \<and> ClientApp_constructor sample_catalog [(''env'', Some ''a''), (''env'', Some ''b'')]
       (Object \<lparr>pcEnvironmentQueryParam = Some (JString ''env''), pcEnvironment = None,
              pcOrigin = None\<rparr>) =
     ([], Inl (Error ''Could not find unique value for env parameter on Query String''))"
proof -
  have h: "1 < length (occurrences [(''env'', Some ''a''), (''env'', Some ''b'')] ''env'')"
    by (simp add: occurrences_def)
  have "length (trim ''env'') \<noteq> 0"
    by (simp add: trim_def isWhiteSpace_def)
  with query_param_absent_or_repeated_fails [OF disjI2 [OF h], of sample_catalog None None] h
  show ?thesis
    by (simp add: no_unique_value_def)
qed

text \<open>
  Claim C7. For every string that is empty or holds white space only, supplied as the
  value of the option that is honoured, construction fails: as
  \<open>pcEnvironmentQueryParam\<close>; as \<open>pcEnvironment\<close> when no query parameter option is
  present; as \<open>pcOrigin\<close> when neither of the other two is present. Each time the
  constructor throws before any lookup and before any facade is created.
\<close>

theorem blank_option_is_rejected:
  assumes "list_all isWhiteSpace s"
  shows "ClientApp_constructor U q
           (Object \<lparr>pcEnvironmentQueryParam = Some (JString s), pcEnvironment = e, pcOrigin = o'\<rparr>) =
         ([], Inl (Error invalid_query_param))
       \<and> ClientApp_constructor U q
           (Object \<lparr>pcEnvironmentQueryParam = None, pcEnvironment = Some (JString s), pcOrigin = o'\<rparr>) =
         ([], Inl (Error invalid_pcEnvironment))
       \<and> ClientApp_constructor U q
           (Object \<lparr>pcEnvironmentQueryParam = None, pcEnvironment = None, pcOrigin = Some (JString s)\<rparr>) =
         ([], Inl (Error invalid_pcOrigin))"
proof -
  from assms have "length (trim s) = 0"
    by (simp only: trim_blank_iff)
  then show ?thesis
    by (simp add: ClientApp_constructor_def resolve_def)
qed

text \<open>The theorem at the string of a space and a tab, as the explicit origin.\<close>

theorem blank_option_is_rejected_witness:
  "list_all isWhiteSpace [CHR 0x20, CHR 0x09]
   \<and> ClientApp_constructor sample_catalog []
       (Object \<lparr>pcEnvironmentQueryParam = None, pcEnvironment = None,
              pcOrigin = Some (JString [CHR 0x20, CHR 0x09])\<rparr>) =
     ([], Inl (Error invalid_pcOrigin))"
proof -
  have h: "list_all isWhiteSpace [CHR 0x20, CHR 0x09]"
    by (simp add: isWhiteSpace_def)
  from blank_option_is_rejected [OF h, of sample_catalog "[]" None None] h show ?thesis
    by simp
qed

text \<open>
  Claim C8, as amended. For an ordinary configuration object (one that inherits
  \<open>hasOwnProperty\<close> from \<open>Object.prototype\<close>, such as \<open>{}\<close>) with none of the three
  options, and likewise for a falsy argument, construction succeeds with the default
  environment, without any lookup: every facade's \<open>targetPcOrigin\<close> is the default
  environment's \<open>pcAppOrigin\<close>, and the getter \<open>pcEnvironment\<close> returns the default
  environment's \<open>pcEnvTld\<close>.
\<close>

theorem no_option_uses_default:
  "\<exists>app. ClientApp_constructor U q (Object no_options) = (map Constructed (facades app), Inr app)
      \<and> ClientApp_constructor U q Falsy = (map Constructed (facades app), Inr app)
      \<and> lookups (map Constructed (facades app)) = []
      \<and> facades app =
          map (\<lambda>k. New k \<lparr>targetPcOrigin = Some (pcAppOrigin (DEFAULT_PC_ENV U))\<rparr>) all_classes
      \<and> priv_pcEnv app = Some (DEFAULT_PC_ENV U)
      \<and> priv_customPcOrigin app = None
      \<and> get_pcEnvironment app = Some (pcEnvTld (DEFAULT_PC_ENV U))"
proof -
  have r: "resolve U q (Object no_options) = ([], Inr (None, None))"
    "resolve U q Falsy = ([], Inr (None, None))"
    by (simp_all add: resolve_def no_options_def)
  let ?app = "snd (build U None None)"
  have "facades ?app =
      map (\<lambda>k. New k \<lparr>targetPcOrigin = Some (pcAppOrigin (DEFAULT_PC_ENV U))\<rparr>) all_classes"
    by (simp add: build_facades target_def falsy_def)
  moreover have "priv_pcEnv ?app = Some (DEFAULT_PC_ENV U)" "priv_customPcOrigin ?app = None"
    by (simp_all add: build_fields falsy_def)
  moreover have "get_pcEnvironment ?app = Some (pcEnvTld (DEFAULT_PC_ENV U))"
    by (simp add: get_pcEnvironment_def build_fields falsy_def)
  moreover have "lookups (map Constructed (facades ?app)) = []"
    by (rule lookups_map)
  moreover have
    "ClientApp_constructor U q (Object no_options) = (map Constructed (facades ?app), Inr ?app)"
    "ClientApp_constructor U q Falsy = (map Constructed (facades ?app), Inr ?app)"
    using constructor_success [OF r(1)] constructor_success [OF r(2)] by simp_all
  ultimately show ?thesis
    by blast
qed

text \<open>
  The claim as it was stated, for every configuration object with none of the three
  options, fails at \<open>Object.create(null)\<close>: the object is truthy and holds no option,
  but it has no \<open>hasOwnProperty\<close>, so the test of line 152 throws a \<open>TypeError\<close>
  before the default of line 188 is reached, and no facade is created.
\<close>

theorem null_prototype_config_counterexample:
  "present no_options = []
   \<and> ClientApp_constructor sample_catalog [] (NullProto no_options) = ([], Inl TypeError)"
  by (simp add: present_def no_options_def ClientApp_constructor_def resolve_def)

text \<open>The amended claim with the sample catalog, whose default is \<open>mypurecloud.com\<close>.\<close>

theorem no_option_uses_default_witness:
  "\<exists>app. ClientApp_constructor sample_catalog [] (Object no_options) =
         (map Constructed (facades app), Inr app)
      \<and> facades app =
          map (\<lambda>k. New k \<lparr>targetPcOrigin = Some ''https://apps.mypurecloud.com''\<rparr>) all_classes
      \<and> get_pcEnvironment app = Some ''mypurecloud.com''"
proof -
  have d: "pcAppOrigin (DEFAULT_PC_ENV sample_catalog) = ''https://apps.mypurecloud.com''"
    "pcEnvTld (DEFAULT_PC_ENV sample_catalog) = ''mypurecloud.com''"
    by (simp_all add: sample_catalog_def sample_env_def)
  from no_option_uses_default [of sample_catalog "[]"] show ?thesis
    unfolding d by blast
qed

text \<open>
  Claim C9, as amended. The static method \<open>about()\<close> returns the package-name constant,
  then the letter \<open>v\<close>, then the package-version constant (the value of the static getter
  \<open>version\<close>), with nothing between the name and the \<open>v\<close>: the result is one character
  longer than the two constants together.
\<close>

theorem about_is_name_v_version:
  "about name ver = name @ CHR ''v'' # version ver
   \<and> length (about name ver) = length name + 1 + length ver
   \<and> take (length name) (about name ver) = name
   \<and> drop (length name) (about name ver) = CHR ''v'' # ver"
  by (simp add: about_def version_def)

text \<open>
  The claim as it was stated gives the form "library name vX.Y.Z", with a space before
  the \<open>v\<close>. The template of line 244 has none: for the name \<open>purecloud-client-app-sdk\<close>
  and the version \<open>1.4.0\<close> the result is \<open>purecloud-client-app-sdkv1.4.0\<close>.
\<close>

theorem about_has_no_space_counterexample:
  "about ''purecloud-client-app-sdk'' ''1.4.0'' = ''purecloud-client-app-sdkv1.4.0''
   \<and> about ''purecloud-client-app-sdk'' ''1.4.0'' \<noteq> ''purecloud-client-app-sdk v1.4.0''"
  by (simp add: about_def)

text \<open>The amended claim at the same constants.\<close>

theorem about_is_name_v_version_witness:
  "about ''purecloud-client-app-sdk'' ''1.4.0'' = ''purecloud-client-app-sdk'' @ ''v1.4.0''
   \<and> length (about ''purecloud-client-app-sdk'' ''1.4.0'') = 30"
  using about_is_name_v_version [of "''purecloud-client-app-sdk''" "''1.4.0''"]
  by (simp add: version_def)

text \<open>
  Claim C10. The mode is selected by the presence of the key, not by its value: for
  every configuration object that holds \<open>pcEnvironmentQueryParam\<close> with a value that is
  not a string (undefined included), whatever \<open>pcEnvironment\<close> and \<open>pcOrigin\<close> hold,
  the constructor throws the invalid-name error with an empty trace, so the other two
  options are never consulted.
\<close>

theorem non_string_query_param_throws:
  assumes "\<forall>s. v \<noteq> JString s"
  shows "ClientApp_constructor U q
           (Object \<lparr>pcEnvironmentQueryParam = Some v, pcEnvironment = e, pcOrigin = o'\<rparr>) =
         ([], Inl (Error invalid_query_param))"
  using assms
  by (cases v) (simp_all add: ClientApp_constructor_def resolve_def)

text \<open>
  The theorem at \<open>{ pcEnvironmentQueryParam: undefined, pcEnvironment: 'mypurecloud.com' }\<close>.
\<close>

theorem non_string_query_param_throws_witness:
  "ClientApp_constructor sample_catalog []
     (Object \<lparr>pcEnvironmentQueryParam = Some JUndefined,
            pcEnvironment = Some (JString ''mypurecloud.com''), pcOrigin = None\<rparr>) =
   ([], Inl (Error ''Invalid query param name provided.  Must be non-null, non-empty string''))"
proof -
  have h: "\<forall>s. JUndefined \<noteq> JString s"
    by simp
  from non_string_query_param_throws [OF h, of sample_catalog "[]"
      "Some (JString ''mypurecloud.com'')" None]
  show ?thesis
    by (simp add: invalid_query_param_def)
qed

end
